theory Spec2Isabelle
  imports Complex_Main "HOL-Library.Word"
begin

unbundle bit_operations_syntax

text \<open>
  A model of the Python client \<open>PingClient\<close> of \<open>sdk/python/ping/client.py\<close>: its keys, its
  checks, the message it builds, signs and posts, and its other calls of the remote service.

  What lies outside the file is a parameter of the model, collected in the record \<open>env\<close>:
  whether the Ed25519 library was importable, the bytes its random source returns, its key
  derivation and its signing function (left uninterpreted), the reading of the clock and the
  floating-point product, and what the HTTP layer answers to a request. The standard library's \<open>json.dumps\<close> and
  \<open>binascii.unhexlify\<close> and the checks of the library's \<open>SigningKey\<close> constructor are written
  out as functions, as the libraries document and implement them.

  A method of the client becomes a function from the environment, the client and the
  arguments to what the call raises or returns, the client after the call, and the list of
  events of the call (what was serialized for signing, what signature was produced, what
  request was sent), in order. A raised exception is \<open>Inl\<close>; the client comes back also then,
  since a Python exception leaves the assignments made before it in place.
\<close>

section \<open>Python values and exceptions\<close>

text \<open>
  \<open>pyval\<close> is a Python value a caller can pass where the annotation is \<open>Any\<close> (a payload, the
  data of a request, a result). A dictionary is an association list in insertion order, the
  order in which Python iterates over it; its keys are strings, as the annotation
  \<open>Dict[str, Any]\<close> says. \<open>PObject cls b\<close> is an object of a class \<open>cls\<close> that JSON cannot
  represent (a set, bytes, an instance of a user class), with its truth value \<open>b\<close>. \<open>PCycle\<close>
  stands, inside a list or dictionary, for a reference back to a container that encloses it:
  a value with a circular reference is the finite tree down to the first such reference.
  Floating-point values are left out. A string is a list of 8-bit characters, read as the code
  points below 256.

  \<open>json\<close> is what \<open>json.loads\<close> returns for the body of a response.
\<close>

type_synonym bytes = "8 word list"

datatype pyval =
    PNone
  | PBool bool
  | PInt int
  | PStr string
  | PList "pyval list"
  | PDict "(string \<times> pyval) list"
  | PObject string bool
  | PCycle

datatype json =
    JNull
  | JBool bool
  | JInt int
  | JStr string
  | JList "json list"
  | JDict "(string \<times> json) list"

datatype pyerr =
    PingError json int
  | TypeError string
  | ValueError string
  | KeyError string
  | AttributeError string
  | JSONDecodeError string
  | OtherError string

text \<open>
  \<open>PingError\<close> is the one exception class the client defines; its first argument is the message
  (any decoded JSON value when it comes from the server), its second the status code. The
  others are Python's built-in exceptions that the client lets through, with their message;
  \<open>ValueError\<close> also stands for its subclasses raised by the hex decoder and by the
  signing library. \<open>OtherError\<close> is any exception of the network layer.
\<close>

fun truthy :: "pyval \<Rightarrow> bool" where
  "truthy PNone = False"
| "truthy (PBool b) = b"
| "truthy (PInt i) = (i \<noteq> 0)"
| "truthy (PStr s) = (s \<noteq> [])"
| "truthy (PList xs) = (xs \<noteq> [])"
| "truthy (PDict kvs) = (kvs \<noteq> [])"
| "truthy (PObject cls b) = b"
| "truthy PCycle = True"

definition py_or :: "pyval \<Rightarrow> pyval \<Rightarrow> pyval" where
  "py_or a b = (if truthy a then a else b)"

subsection \<open>The JSON encoder\<close>

text \<open>
  \<open>json_dumps\<close> is \<open>json.dumps\<close> with its default options: entries of a dictionary in
  insertion order (no sorting of keys), separators \<open>", "\<close> and \<open>": "\<close>, every character outside
  printable ASCII escaped. It raises \<open>TypeError\<close> at the first value it cannot represent and
  \<open>ValueError\<close> at the first circular reference, whichever it meets first from left to right.
\<close>

definition hexdigit :: "nat \<Rightarrow> char" where
  "hexdigit n = ''0123456789abcdef'' ! (n mod 16)"

function show_nat :: "nat \<Rightarrow> string" where
  "show_nat n = (if n < 10 then [hexdigit n] else show_nat (n div 10) @ [hexdigit (n mod 10)])"
  by pat_completeness auto
termination
  by (relation "measure id") auto

declare show_nat.simps [simp del]

definition show_int :: "int \<Rightarrow> string" where
  "show_int i = (if i < 0 then CHR ''-'' # show_nat (nat (- i)) else show_nat (nat i))"

definition escape_char :: "char \<Rightarrow> string" where
  "escape_char c =
     (if c = CHR 0x5C then [CHR 0x5C, CHR 0x5C]
      else if c = CHR 0x22 then [CHR 0x5C, CHR 0x22]
      else if c = CHR 0x08 then [CHR 0x5C, CHR ''b'']
      else if c = CHR 0x0C then [CHR 0x5C, CHR ''f'']
      else if c = CHR 0x0A then [CHR 0x5C, CHR ''n'']
      else if c = CHR 0x0D then [CHR 0x5C, CHR ''r'']
      else if c = CHR 0x09 then [CHR 0x5C, CHR ''t'']
      else if 32 \<le> (of_char c :: nat) \<and> (of_char c :: nat) \<le> 126 then [c]
      else [CHR 0x5C, CHR ''u'', CHR ''0'', CHR ''0'',
            hexdigit (of_char c div 16), hexdigit (of_char c mod 16)])"

definition encode_basestring_ascii :: "string \<Rightarrow> string" where
  "encode_basestring_ascii s = [CHR 0x22] @ concat (map escape_char s) @ [CHR 0x22]"

fun join :: "string \<Rightarrow> string list \<Rightarrow> string" where
  "join sep [] = []"
| "join sep [x] = x"
| "join sep (x # y # ys) = x @ sep @ join sep (y # ys)"

fun json_dumps :: "pyval \<Rightarrow> pyerr + string"
  and dumps_list :: "pyval list \<Rightarrow> pyerr + string list"
  and dumps_items :: "(string \<times> pyval) list \<Rightarrow> pyerr + string list" where
  "json_dumps PNone = Inr ''null''"
| "json_dumps (PBool b) = Inr (if b then ''true'' else ''false'')"
| "json_dumps (PInt i) = Inr (show_int i)"
| "json_dumps (PStr s) = Inr (encode_basestring_ascii s)"
| "json_dumps (PList xs) =
     (case dumps_list xs of Inl e \<Rightarrow> Inl e
      | Inr ss \<Rightarrow> Inr (''['' @ join '', '' ss @ '']''))"
| "json_dumps (PDict kvs) =
     (case dumps_items kvs of Inl e \<Rightarrow> Inl e
      | Inr ss \<Rightarrow> Inr (''{'' @ join '', '' ss @ ''}''))"
| "json_dumps (PObject cls b) =
     Inl (TypeError (''Object of type '' @ cls @ '' is not JSON serializable''))"
| "json_dumps PCycle = Inl (ValueError ''Circular reference detected'')"
| "dumps_list [] = Inr []"
| "dumps_list (x # xs) =
     (case json_dumps x of Inl e \<Rightarrow> Inl e
      | Inr s \<Rightarrow> (case dumps_list xs of Inl e \<Rightarrow> Inl e | Inr ss \<Rightarrow> Inr (s # ss)))"
| "dumps_items [] = Inr []"
| "dumps_items (kv # kvs) =
     (case json_dumps (snd kv) of Inl e \<Rightarrow> Inl e
      | Inr s \<Rightarrow> (case dumps_items kvs of Inl e \<Rightarrow> Inl e
          | Inr ss \<Rightarrow> Inr ((encode_basestring_ascii (fst kv) @ '': '' @ s) # ss)))"

subsection \<open>Decoded JSON and Python's operations on it\<close>

text \<open>
  \<open>py_int\<close> is \<open>int\<close> of a finite float: it cuts towards zero, exactly. \<open>dict_set\<close> is the dictionary display
  \<open>{**d, k: v}\<close>: an existing key keeps its place and takes the new value, a new key goes to
  the end. \<open>py_getitem\<close> is \<open>d[k]\<close>, \<open>py_get\<close> is \<open>d.get(k, default)\<close> and \<open>py_iter\<close> is the
  iteration of a \<open>for\<close> clause, each with the exception Python raises on a value of the wrong
  type.
\<close>


fun of_json :: "json \<Rightarrow> pyval" where
  "of_json JNull = PNone"
| "of_json (JBool b) = PBool b"
| "of_json (JInt i) = PInt i"
| "of_json (JStr s) = PStr s"
| "of_json (JList xs) = PList (map of_json xs)"
| "of_json (JDict kvs) = PDict (map (\<lambda>kv. (fst kv, of_json (snd kv))) kvs)"

definition py_int :: "real \<Rightarrow> int" where
  "py_int x = (if x < 0 then \<lceil>x\<rceil> else \<lfloor>x\<rfloor>)"

definition dict_set :: "(string \<times> 'v) list \<Rightarrow> string \<Rightarrow> 'v \<Rightarrow> (string \<times> 'v) list" where
  "dict_set d k v =
     (if k \<in> set (map fst d) then map (\<lambda>kv. if fst kv = k then (k, v) else kv) d
      else d @ [(k, v)])"

definition try_bind :: "pyerr + 'a \<Rightarrow> ('a \<Rightarrow> pyerr + 'b) \<Rightarrow> pyerr + 'b" where
  "try_bind m f = (case m of Inl e \<Rightarrow> Inl e | Inr x \<Rightarrow> f x)"


fun type_name :: "json \<Rightarrow> string" where
  "type_name JNull = ''NoneType''"
| "type_name (JBool b) = ''bool''"
| "type_name (JInt i) = ''int''"
| "type_name (JStr s) = ''str''"
| "type_name (JList xs) = ''list''"
| "type_name (JDict kvs) = ''dict''"

fun py_getitem :: "json \<Rightarrow> string \<Rightarrow> pyerr + json" where
  "py_getitem (JDict kvs) k = (case map_of kvs k of None \<Rightarrow> Inl (KeyError k) | Some v \<Rightarrow> Inr v)"
| "py_getitem (JList xs) k = Inl (TypeError ''list indices must be integers or slices, not str'')"
| "py_getitem (JStr s) k = Inl (TypeError ''string indices must be integers'')"
| "py_getitem j k = Inl (TypeError ([CHR 0x27] @ type_name j @ [CHR 0x27] @ '' object is not subscriptable''))"

fun py_get :: "json \<Rightarrow> string \<Rightarrow> json \<Rightarrow> pyerr + json" where
  "py_get (JDict kvs) k d = (case map_of kvs k of None \<Rightarrow> Inr d | Some v \<Rightarrow> Inr v)"
| "py_get j k d =
     Inl (AttributeError ([CHR 0x27] @ type_name j @ [CHR 0x27] @ '' object has no attribute ''
            @ [CHR 0x27] @ ''get'' @ [CHR 0x27]))"


section \<open>Hexadecimal and UTF-8 encodings\<close>

text \<open>
  \<open>hexlify\<close> is the lowercase hexadecimal form of bytes (\<open>bytes.hex\<close>, the library's
  \<open>HexEncoder.encode\<close>). \<open>unhexlify\<close> is \<open>binascii.unhexlify\<close> on a string: it refuses a
  non-ASCII character, then an odd length, then a character that is no hexadecimal digit, in
  this order, and accepts digits of both cases.
\<close>

definition hexlify :: "bytes \<Rightarrow> string" where
  "hexlify bs = concat (map (\<lambda>b. [hexdigit (unat b div 16), hexdigit (unat b mod 16)]) bs)"

definition hexval :: "char \<Rightarrow> nat option" where
  "hexval c =
     (let n = (of_char c :: nat) in
      if 48 \<le> n \<and> n \<le> 57 then Some (n - 48)
      else if 97 \<le> n \<and> n \<le> 102 then Some (n - 87)
      else if 65 \<le> n \<and> n \<le> 70 then Some (n - 55)
      else None)"

fun unhex_pairs :: "string \<Rightarrow> bytes option" where
  "unhex_pairs [] = Some []"
| "unhex_pairs [c] = None"
| "unhex_pairs (a # b # cs) =
     (case hexval a of None \<Rightarrow> None
      | Some h \<Rightarrow> (case hexval b of None \<Rightarrow> None
          | Some l \<Rightarrow> (case unhex_pairs cs of None \<Rightarrow> None
              | Some bs \<Rightarrow> Some (of_nat (h * 16 + l) # bs))))"

definition unhexlify :: "string \<Rightarrow> pyerr + bytes" where
  "unhexlify s =
     (if list_ex (\<lambda>c. 128 \<le> (of_char c :: nat)) s
        then Inl (ValueError ''string argument should contain only ASCII characters'')
      else if odd (length s) then Inl (ValueError ''Odd-length string'')
      else (case unhex_pairs s of
              None \<Rightarrow> Inl (ValueError ''Non-hexadecimal digit found'')
            | Some bs \<Rightarrow> Inr bs))"

definition utf8_char :: "char \<Rightarrow> bytes" where
  "utf8_char c =
     (let n = (of_char c :: nat) in
      if n < 128 then [of_nat n] else [of_nat (192 + n div 64), of_nat (128 + n mod 64)])"

definition encode_utf8 :: "string \<Rightarrow> bytes" where
  "encode_utf8 s = concat (map utf8_char s)"


section \<open>The environment of the client\<close>

text \<open>
  A path is kept as the parts of the f-string that builds it: \<open>Lit\<close> is literal text (or a
  string argument), \<open>Fmt\<close> a formatted value, which for the agent id is whatever the server
  returned as \<open>id\<close>.

  \<open>urlopen env req\<close> is the answer to the request \<open>req\<close>: \<open>Response r\<close> is a successful response
  whose body \<open>json.loads\<close> decodes to \<open>r\<close> (or fails to, when \<open>r\<close> is an exception);
  \<open>HTTPError code msg r\<close> is an HTTP error with its status code, its text \<open>str(e)\<close> and the
  decoding \<open>r\<close> of its body; \<open>Raised e\<close> is any other exception of building or sending the
  request.

  \<open>time_time\<close> is the reading of \<open>time.time()\<close>, in seconds: a floating-point number, kept as
  the real number it denotes. \<open>float_mul env x y\<close> is the floating-point product \<open>x * y\<close> as the
  interpreter computes it, the exact product rounded to a representable number; the rounding
  is the platform's and is not written out, and the product is taken to be finite. The
  environment of the examples multiplies exactly, which is what floating-point arithmetic
  does on the readings used there: each of them, and its product with 1000, is a
  representable number.
\<close>

datatype fpart = Lit string | Fmt pyval

record http_request =
  url :: "fpart list"
  data :: "bytes option"
  headers :: "(string \<times> string) list"
  http_method :: string

datatype http_outcome =
    Response "pyerr + json"
  | HTTPError int string "pyerr + json"
  | Raised pyerr

record env =
  NACL_AVAILABLE :: bool
  nacl_random :: "nat \<Rightarrow> bytes"
  crypto_sign_seed_keypair :: "bytes \<Rightarrow> bytes"
  crypto_sign :: "bytes \<Rightarrow> bytes \<Rightarrow> bytes"
  time_time :: real
  float_mul :: "real \<Rightarrow> real \<Rightarrow> real"
  urlopen :: "http_request \<Rightarrow> http_outcome"

datatype event = Serialized bytes | Signed string | Sent http_request

section \<open>Signing keys\<close>

text \<open>
  A signing key object is its 32-byte seed and the verify key derived from it.
  \<open>SigningKey_raw\<close> is the library's constructor on raw bytes, with its check of the seed
  length; \<open>SigningKey_hex\<close> is the constructor with the hex decoder, as \<open>set_keys\<close> calls it;
  \<open>SigningKey_generate\<close> is \<open>SigningKey.generate()\<close>, the constructor on 32 bytes of the random
  source.
\<close>

record SigningKey =
  seed :: bytes
  verify_key :: bytes

definition SigningKey_raw :: "env \<Rightarrow> bytes \<Rightarrow> pyerr + SigningKey" where
  "SigningKey_raw env s =
     (if length s \<noteq> 32 then Inl (ValueError ''The seed must be exactly 32 bytes long'')
      else Inr \<lparr>seed = s, verify_key = crypto_sign_seed_keypair env s\<rparr>)"

definition SigningKey_hex :: "env \<Rightarrow> string \<Rightarrow> pyerr + SigningKey" where
  "SigningKey_hex env h = try_bind (unhexlify h) (SigningKey_raw env)"

definition SigningKey_generate :: "env \<Rightarrow> pyerr + SigningKey" where
  "SigningKey_generate env = SigningKey_raw env (nacl_random env 32)"

section \<open>The client\<close>

record PingClient =
  base_url :: string
  agent_id :: pyval
  priv_signing_key :: "SigningKey option"
  priv_public_key :: string

record Agent =
  agent_ident :: json
  agent_public_key :: json
  agent_name :: json
  agent_provider :: json
  agent_capabilities :: json
  agent_webhook_url :: json
  agent_is_public :: json
  agent_created_at :: json



type_synonym 'a outcome = "(pyerr + 'a) \<times> PingClient \<times> event list"

definition rstrip :: "char \<Rightarrow> string \<Rightarrow> string" where
  "rstrip ch s = rev (dropWhile (\<lambda>c. c = ch) (rev s))"

definition opt_str :: "string option \<Rightarrow> pyval" where
  "opt_str x = (case x of None \<Rightarrow> PNone | Some s \<Rightarrow> PStr s)"


subsection \<open>Internals\<close>

text \<open>
  \<open>priv_request\<close>, \<open>priv_sign\<close>, \<open>priv_require_agent\<close> and \<open>priv_require_keys\<close> are the methods
  \<open>_request\<close>, \<open>_sign\<close>, \<open>_require_agent\<close> and \<open>_require_keys\<close>; the fields \<open>priv_signing_key\<close>
  and \<open>priv_public_key\<close> are \<open>_signing_key\<close> and \<open>_public_key\<close>.
\<close>

definition priv_request ::
  "env \<Rightarrow> PingClient \<Rightarrow> string \<Rightarrow> fpart list \<Rightarrow> pyval option \<Rightarrow> (pyerr + json) \<times> event list" where
  "priv_request env self meth path body =
     (case (case body of
              None \<Rightarrow> Inr (None, [])
            | Some b \<Rightarrow> try_bind (json_dumps b)
                (\<lambda>s. Inr (Some (encode_utf8 s), [(''Content-Type'', ''application/json'')]))) of
        Inl e \<Rightarrow> (Inl e, [])
      | Inr (dat, hdrs) \<Rightarrow>
          (let req = \<lparr>url = Lit (base_url self) # path, data = dat, headers = hdrs, http_method = meth\<rparr>
           in ((case urlopen env req of
                  Response r \<Rightarrow> r
                | HTTPError code msg r \<Rightarrow>
                    (case r of
                       Inl (JSONDecodeError d) \<Rightarrow> Inl (PingError (JStr msg) code)
                     | Inl e \<Rightarrow> Inl e
                     | Inr error_data \<Rightarrow>
                         try_bind (py_get error_data ''error'' (JStr msg))
                           (\<lambda>m. Inl (PingError m code)))
                | Raised e \<Rightarrow> Inl e),
               [Sent req])))"

definition priv_sign :: "env \<Rightarrow> PingClient \<Rightarrow> pyval \<Rightarrow> (pyerr + string) \<times> event list" where
  "priv_sign env self message =
     (case json_dumps message of
        Inl e \<Rightarrow> (Inl e, [])
      | Inr s \<Rightarrow>
          (let msg_bytes = encode_utf8 s in
           case priv_signing_key self of
             None \<Rightarrow>
               (Inl (AttributeError ([CHR 0x27] @ ''NoneType'' @ [CHR 0x27]
                  @ '' object has no attribute '' @ [CHR 0x27] @ ''sign'' @ [CHR 0x27])),
                [Serialized msg_bytes])
           | Some k \<Rightarrow>
               (let signature = hexlify (crypto_sign env (seed k) msg_bytes)
                in (Inr signature, [Serialized msg_bytes, Signed signature]))))"

definition priv_require_agent :: "PingClient \<Rightarrow> pyerr + unit" where
  "priv_require_agent self =
     (if \<not> truthy (agent_id self)
      then Inl (PingError (JStr ''Must register first (call register())'') 400)
      else Inr ())"

definition priv_require_keys :: "PingClient \<Rightarrow> pyerr + unit" where
  "priv_require_keys self =
     (if priv_signing_key self = None
      then Inl (PingError (JStr ''Must generate or set keys first'') 400)
      else Inr ())"

subsection \<open>Keys\<close>

definition generate_keys :: "env \<Rightarrow> PingClient \<Rightarrow> ((string \<times> string) list) outcome" where
  "generate_keys env self =
     (if \<not> NACL_AVAILABLE env then (Inl (PingError (JStr ''PyNaCl not installed. Run: pip install pynacl'') 500), self, [])
      else (case SigningKey_generate env of
              Inl e \<Rightarrow> (Inl e, self, [])
            | Inr k \<Rightarrow>
                (let self1 = self\<lparr>priv_signing_key := Some k\<rparr>;
                     self2 = self1\<lparr>priv_public_key := hexlify (verify_key k)\<rparr>
                 in (Inr [(''private_key'', hexlify (seed k)),
                          (''public_key'', priv_public_key self2)], self2, []))))"

definition set_keys :: "env \<Rightarrow> PingClient \<Rightarrow> string \<Rightarrow> unit outcome" where
  "set_keys env self private_key =
     (if \<not> NACL_AVAILABLE env then (Inl (PingError (JStr ''PyNaCl not installed. Run: pip install pynacl'') 500), self, [])
      else (case SigningKey_hex env private_key of
              Inl e \<Rightarrow> (Inl e, self, [])
            | Inr k \<Rightarrow>
                (let self1 = self\<lparr>priv_signing_key := Some k\<rparr>;
                     self2 = self1\<lparr>priv_public_key := hexlify (verify_key k)\<rparr>
                 in (Inr (), self2, []))))"

definition public_key :: "PingClient \<Rightarrow> string" where
  "public_key self = priv_public_key self"

definition init :: "env \<Rightarrow> string \<Rightarrow> string option \<Rightarrow> string option \<Rightarrow> pyerr + PingClient" where
  "init env base private_key agent =
     (let self = \<lparr>base_url = rstrip CHR ''/'' base,
                  agent_id = PStr (case agent of None \<Rightarrow> [] | Some a \<Rightarrow> a),
                  priv_signing_key = None,
                  priv_public_key = []\<rparr>
      in case private_key of
           None \<Rightarrow> Inr self
         | Some pk \<Rightarrow>
             if pk = [] then Inr self
             else (case set_keys env self pk of
                     (Inl e, self1, ev) \<Rightarrow> Inl e
                   | (Inr u, self1, ev) \<Rightarrow> Inr self1))"


subsection \<open>Agents\<close>

definition Agent_of :: "json \<Rightarrow> pyerr + Agent" where
  "Agent_of d =
     try_bind (py_getitem d ''id'') (\<lambda>i.
     try_bind (py_getitem d ''publicKey'') (\<lambda>pk.
     try_bind (py_getitem d ''name'') (\<lambda>n.
     try_bind (py_getitem d ''provider'') (\<lambda>p.
     try_bind (py_get d ''capabilities'' (JList [])) (\<lambda>caps.
     try_bind (py_get d ''webhookUrl'' JNull) (\<lambda>w.
     try_bind (py_get d ''isPublic'' (JBool False)) (\<lambda>pub.
     try_bind (py_get d ''createdAt'' (JStr [])) (\<lambda>created.
       Inr \<lparr>agent_ident = i, agent_public_key = pk, agent_name = n, agent_provider = p,
            agent_capabilities = caps, agent_webhook_url = w, agent_is_public = pub,
            agent_created_at = created\<rparr>))))))))"

definition register ::
  "env \<Rightarrow> PingClient \<Rightarrow> string \<Rightarrow> string \<Rightarrow> string list option \<Rightarrow> string option \<Rightarrow> bool
     \<Rightarrow> Agent outcome" where
  "register env self name provider capabilities webhook_url is_public =
     (case (if priv_public_key self = [] then generate_keys env self else (Inr [], self, [])) of
        (Inl e, self1, ev1) \<Rightarrow> (Inl e, self1, ev1)
      | (Inr keys, self1, ev1) \<Rightarrow>
          (case priv_request env self1 ''POST'' [Lit ''/agents'']
                  (Some (PDict [(''publicKey'', PStr (priv_public_key self1)),
                                (''name'', PStr name),
                                (''provider'', PStr provider),
                                (''capabilities'',
                                   (case capabilities of
                                      None \<Rightarrow> PList []
                                    | Some cs \<Rightarrow> PList (map PStr cs))),
                                (''webhookUrl'', opt_str webhook_url),
                                (''isPublic'', PBool is_public)])) of
             (Inl e, ev2) \<Rightarrow> (Inl e, self1, ev1 @ ev2)
           | (Inr d, ev2) \<Rightarrow>
               (case py_getitem d ''id'' of
                  Inl e \<Rightarrow> (Inl e, self1, ev1 @ ev2)
                | Inr i \<Rightarrow> (Agent_of d, self1\<lparr>agent_id := of_json i\<rparr>, ev1 @ ev2))))"



subsection \<open>Directory\<close>



subsection \<open>Contacts\<close>






subsection \<open>Messages\<close>

text \<open>
  \<open>send_message\<close> is the dictionary \<open>message\<close> that \<open>send\<close> builds, its six entries in the order
  of the dictionary display. \<open>Message_of\<close> builds a \<open>Message\<close> from an entry of the response;
  \<open>inbox\<close> reads the two delivery flags, \<open>history\<close> leaves them at their default.
\<close>

definition send_message ::
  "env \<Rightarrow> PingClient \<Rightarrow> string \<Rightarrow> string \<Rightarrow> pyval \<Rightarrow> string option \<Rightarrow> (string \<times> pyval) list" where
  "send_message env self to mtype payload reply_to =
     [(''type'', PStr mtype),
      (''from'', agent_id self),
      (''to'', PStr to),
      (''payload'', py_or payload (PDict [])),
      (''replyTo'', opt_str reply_to),
      (''timestamp'', PInt (py_int (float_mul env (time_time env) 1000)))]"

definition send ::
  "env \<Rightarrow> PingClient \<Rightarrow> string \<Rightarrow> string \<Rightarrow> pyval \<Rightarrow> string option \<Rightarrow> json outcome" where
  "send env self to mtype payload reply_to =
     (case priv_require_agent self of
        Inl e \<Rightarrow> (Inl e, self, [])
      | Inr u \<Rightarrow>
          (case priv_require_keys self of
             Inl e \<Rightarrow> (Inl e, self, [])
           | Inr u \<Rightarrow>
               (let message = send_message env self to mtype payload reply_to
                in case priv_sign env self (PDict message) of
                     (Inl e, ev1) \<Rightarrow> (Inl e, self, ev1)
                   | (Inr signature, ev1) \<Rightarrow>
                       (case priv_request env self ''POST'' [Lit ''/messages'']
                               (Some (PDict (dict_set message ''signature'' (PStr signature)))) of
                          (r, ev2) \<Rightarrow> (r, self, ev1 @ ev2)))))"





subsection \<open>Convenience methods\<close>







definition signature :: "env \<Rightarrow> PingClient \<Rightarrow> string \<Rightarrow> string \<Rightarrow> string option \<Rightarrow> json outcome" where
  "signature env self to sig reply_to =
     send env self to ''signature'' (PDict [(''signature'', PStr sig)]) reply_to"

section \<open>Sequences of calls\<close>

text \<open>
  A call of a public method with its arguments, the client after one call (whatever the call
  returned or raised) and after a sequence of calls, each in its own environment.
  \<open>changes_key\<close> marks the three methods whose code path reaches an assignment to the signing
  key.
\<close>

datatype call =
    GenerateKeys
  | SetKeys string
  | Register string string "string list option" "string option" bool
  | GetAgent string
  | DeleteAgent
  | Directory
  | Search "string option" "string option" "string option"
  | Contacts
  | AddContact string "string option" "string option"
  | RemoveContact string
  | Send string string pyval "string option"
  | Inbox bool
  | History string int
  | Ack string
  | Text string string
  | Ping string
  | Pong string "string option"
  | Request string string pyval
  | Respond string pyval "string option"
  | Propose string pyval
  | Signature string string "string option"





section \<open>Observations used in the statements\<close>

text \<open>
  \<open>serialized\<close> picks the byte strings that a call serialized for signing out of its events.
  \<open>raised_PingError\<close> holds of an outcome that raised a \<open>PingError\<close>. \<open>valid_private_key_hex\<close>
  is the format of a private key: 64 hexadecimal digits, the encoding of 32 bytes.
  \<open>key_set\<close> holds when the client holds a signing key.
\<close>

fun serialized :: "event list \<Rightarrow> bytes list" where
  "serialized [] = []"
| "serialized (Serialized b # evs) = b # serialized evs"
| "serialized (ev # evs) = serialized evs"

fun raised_PingError :: "pyerr + 'a \<Rightarrow> bool" where
  "raised_PingError (Inl (PingError m c)) = True"
| "raised_PingError r = False"

definition is_hex :: "char \<Rightarrow> bool" where
  "is_hex c = (hexval c \<noteq> None)"

definition valid_private_key_hex :: "string \<Rightarrow> bool" where
  "valid_private_key_hex s = (length s = 64 \<and> list_all is_hex s)"

definition key_set :: "PingClient \<Rightarrow> bool" where
  "key_set self = (priv_signing_key self \<noteq> None)"

section \<open>Example environments and clients\<close>

text \<open>
  A small environment with stand-ins for the cryptographic functions, a client just
  constructed, and a client that has an agent id and a key; the theorems are instantiated on
  them.
\<close>

definition example_response :: "http_request \<Rightarrow> http_outcome" where
  "example_response req = Response (Inr (JDict [(''id'', JStr ''m1'')]))"

definition example_env :: env where
  "example_env =
     \<lparr>NACL_AVAILABLE = True,
      nacl_random = (\<lambda>n. replicate n 7),
      crypto_sign_seed_keypair = map (\<lambda>b. b + 1),
      crypto_sign = (\<lambda>k m. take 2 k @ take 2 m),
      time_time = 2,
      float_mul = (\<lambda>x y. x * y),
      urlopen = example_response\<rparr>"

definition example_key :: SigningKey where
  "example_key = \<lparr>seed = replicate 32 1, verify_key = replicate 32 2\<rparr>"

definition fresh_client :: PingClient where
  "fresh_client =
     \<lparr>base_url = ''http://localhost:3100'', agent_id = PStr [],
      priv_signing_key = None, priv_public_key = []\<rparr>"

definition ready_client :: PingClient where
  "ready_client =
     \<lparr>base_url = ''http://localhost:3100'', agent_id = PStr ''agent-A'',
      priv_signing_key = Some example_key, priv_public_key = hexlify (verify_key example_key)\<rparr>"

section \<open>Hexadecimal round trip\<close>

lemma hex_table:
  "list_all (\<lambda>n. hexval (hexdigit n) = Some n \<and> (of_char (hexdigit n) :: nat) < 128) [0..<16]"
  by code_simp

lemma hexval_hexdigit: "n < 16 \<Longrightarrow> hexval (hexdigit n) = Some n"
  using hex_table by (simp add: list_all_iff)

lemma hexdigit_ascii: "n < 16 \<Longrightarrow> (of_char (hexdigit n) :: nat) < 128"
  using hex_table by (simp add: list_all_iff)

lemma byte_nibbles: "(of_nat (unat b div 16 * 16 + unat b mod 16) :: 8 word) = b"
  by simp

lemma hi_nibble: "unat (b :: 8 word) div 16 < 16"
  using unsigned_less [of b, where ?'a = nat] by simp

lemma unhex_pairs_hexlify: "unhex_pairs (hexlify bs) = Some bs"
  by (induction bs) (simp_all add: hexlify_def hexval_hexdigit hi_nibble)

lemma hexlify_length: "length (hexlify bs) = 2 * length bs"
  by (induction bs) (simp_all add: hexlify_def)

lemma hexlify_ascii: "\<not> list_ex (\<lambda>c. 128 \<le> (of_char c :: nat)) (hexlify bs)"
  by (induction bs) (simp_all add: hexlify_def hexdigit_ascii hi_nibble not_le)

lemma unhexlify_hexlify: "unhexlify (hexlify bs) = Inr bs"
  by (simp add: unhexlify_def hexlify_ascii hexlify_length unhex_pairs_hexlify)

section \<open>Errors of the serializer\<close>

lemma json_dumps_error_kind:
  "json_dumps v = Inl e \<Longrightarrow> (\<exists>m. e = TypeError m) \<or> (\<exists>m. e = ValueError m)"
  "dumps_list vs = Inl e \<Longrightarrow> (\<exists>m. e = TypeError m) \<or> (\<exists>m. e = ValueError m)"
  "dumps_items kvs = Inl e \<Longrightarrow> (\<exists>m. e = TypeError m) \<or> (\<exists>m. e = ValueError m)"
  by (induction v and vs and kvs rule: json_dumps_dumps_list_dumps_items.induct)
     (auto split: sum.splits)

section \<open>The message built by send\<close>

lemma dict_set_fresh: "k \<notin> set (map fst d) \<Longrightarrow> dict_set d k v = d @ [(k, v)]"
  by (simp add: dict_set_def)

lemma send_message_items:
  "dumps_items (send_message env self to mtype payload reply_to) =
     (case json_dumps (agent_id self) of
        Inl e \<Rightarrow> Inl e
      | Inr f \<Rightarrow>
          (case json_dumps (py_or payload (PDict [])) of
             Inl e \<Rightarrow> Inl e
           | Inr p \<Rightarrow>
               Inr [encode_basestring_ascii ''type'' @ '': '' @ encode_basestring_ascii mtype,
                    encode_basestring_ascii ''from'' @ '': '' @ f,
                    encode_basestring_ascii ''to'' @ '': '' @ encode_basestring_ascii to,
                    encode_basestring_ascii ''payload'' @ '': '' @ p,
                    encode_basestring_ascii ''replyTo'' @ '': ''
                      @ (case reply_to of None \<Rightarrow> ''null'' | Some r \<Rightarrow> encode_basestring_ascii r),
                    encode_basestring_ascii ''timestamp'' @ '': ''
                      @ show_int (py_int (float_mul env (time_time env) 1000))]))"
  by (simp add: send_message_def opt_str_def split: sum.splits option.splits)

lemma dumps_items_snoc:
  "dumps_items (kvs @ [(k, PStr v)]) =
     (case dumps_items kvs of
        Inl e \<Rightarrow> Inl e
      | Inr ss \<Rightarrow> Inr (ss @ [encode_basestring_ascii k @ '': '' @ encode_basestring_ascii v]))"
  by (induction kvs) (auto split: sum.splits)

lemma send_message_keys:
  "map fst (send_message env self to mtype payload reply_to)
     = [''type'', ''from'', ''to'', ''payload'', ''replyTo'', ''timestamp'']"
  by (simp add: send_message_def)

lemma priv_sign_serialized:
  "serialized (snd (priv_sign env self message)) =
     (case json_dumps message of Inl e \<Rightarrow> [] | Inr s \<Rightarrow> [encode_utf8 s])"
  by (simp add: priv_sign_def Let_def split: sum.splits option.splits)

lemma send_serialized:
  assumes "truthy (agent_id self)" and "key_set self"
  shows "serialized (snd (snd (send env self to mtype payload reply_to))) =
           (case json_dumps (PDict (send_message env self to mtype payload reply_to)) of
              Inl e \<Rightarrow> []
            | Inr s \<Rightarrow> [encode_utf8 s])"
  using assms
  by (auto simp: send_def priv_require_agent_def priv_require_keys_def priv_sign_def
        priv_request_def key_set_def try_bind_def Let_def split: sum.splits prod.splits option.splits)

lemma send_message_dumps:
  "json_dumps (PDict (send_message env self to mtype payload reply_to)) =
     (case json_dumps (agent_id self) of
        Inl e \<Rightarrow> Inl e
      | Inr f \<Rightarrow>
          (case json_dumps (py_or payload (PDict [])) of
             Inl e \<Rightarrow> Inl e
           | Inr p \<Rightarrow>
               Inr (''{''
                    @ encode_basestring_ascii ''type'' @ '': '' @ encode_basestring_ascii mtype
                    @ '', '' @ encode_basestring_ascii ''from'' @ '': '' @ f
                    @ '', '' @ encode_basestring_ascii ''to'' @ '': '' @ encode_basestring_ascii to
                    @ '', '' @ encode_basestring_ascii ''payload'' @ '': '' @ p
                    @ '', '' @ encode_basestring_ascii ''replyTo'' @ '': ''
                    @ (case reply_to of None \<Rightarrow> ''null''
                       | Some r \<Rightarrow> encode_basestring_ascii r)
                    @ '', '' @ encode_basestring_ascii ''timestamp'' @ '': ''
                    @ show_int (py_int (float_mul env (time_time env) 1000))
                    @ ''}'')))"
  by (simp add: send_message_items split: sum.splits)

section \<open>What is signed\<close>

text \<open>
  Claim C1. When \<open>send\<close> passes its checks and the agent id and the payload serialize (to
  \<open>f\<close> and \<open>p\<close>), the bytes handed to the signing key are the UTF-8 encoding of the JSON
  object with exactly the six content fields \<open>type\<close>, \<open>from\<close>, \<open>to\<close>, \<open>payload\<close>, \<open>replyTo\<close>
  and \<open>timestamp\<close>, in this order; the signature is the lowercase hexadecimal form of the
  key's signature of these bytes; and the body transmitted is the same six fields followed by
  the \<open>signature\<close> field. The signature field is added after signing and is no part of the
  signed bytes. The client is unchanged.
\<close>

theorem send_signs_content_fields:
  assumes "truthy (agent_id self)" and "priv_signing_key self = Some k"
    and "json_dumps (agent_id self) = Inr f"
    and "json_dumps (py_or payload (PDict [])) = Inr p"
  shows "let items = [encode_basestring_ascii ''type'' @ '': '' @ encode_basestring_ascii mtype,
                      encode_basestring_ascii ''from'' @ '': '' @ f,
                      encode_basestring_ascii ''to'' @ '': '' @ encode_basestring_ascii to,
                      encode_basestring_ascii ''payload'' @ '': '' @ p,
                      encode_basestring_ascii ''replyTo'' @ '': ''
                        @ (case reply_to of None \<Rightarrow> ''null'' | Some r \<Rightarrow> encode_basestring_ascii r),
                      encode_basestring_ascii ''timestamp'' @ '': ''
                        @ show_int (py_int (float_mul env (time_time env) 1000))];
             signed = encode_utf8 (''{'' @ join '', '' items @ ''}'');
             sig = hexlify (crypto_sign env (seed k) signed);
             body = encode_utf8
                      (''{'' @ join '', ''
                         (items @ [encode_basestring_ascii ''signature'' @ '': ''
                                     @ encode_basestring_ascii sig]) @ ''}'')
         in snd (send env self to mtype payload reply_to) =
              (self,
               [Serialized signed, Signed sig,
                Sent \<lparr>url = [Lit (base_url self), Lit ''/messages''], data = Some body,
                      headers = [(''Content-Type'', ''application/json'')],
                      http_method = ''POST''\<rparr>])"
proof -
  have fresh: "''signature'' \<notin> set (map fst (send_message env self to mtype payload reply_to))"
    by (simp add: send_message_keys)
  show ?thesis
    using assms
    by (simp add: send_def priv_require_agent_def priv_require_keys_def priv_sign_def
          priv_request_def dict_set_fresh [OF fresh] dumps_items_snoc send_message_items
          try_bind_def Let_def split: prod.splits)
qed

theorem send_signs_content_fields_witness:
  "truthy (agent_id ready_client) \<and> priv_signing_key ready_client = Some example_key
   \<and> json_dumps (agent_id ready_client) = Inr (encode_basestring_ascii ''agent-A'')
   \<and> json_dumps (py_or (PDict [(''text'', PStr ''Hello!'')]) (PDict []))
       = Inr (''{'' @ encode_basestring_ascii ''text'' @ '': '' @ encode_basestring_ascii ''Hello!'' @ ''}'')
   \<and> (let items = [encode_basestring_ascii ''type'' @ '': '' @ encode_basestring_ascii ''text'',
                      encode_basestring_ascii ''from'' @ '': '' @ encode_basestring_ascii ''agent-A'',
                      encode_basestring_ascii ''to'' @ '': '' @ encode_basestring_ascii ''agent-B'',
                      encode_basestring_ascii ''payload'' @ '': ''
                        @ (''{'' @ encode_basestring_ascii ''text'' @ '': ''
                             @ encode_basestring_ascii ''Hello!'' @ ''}''),
                      encode_basestring_ascii ''replyTo'' @ '': '' @ ''null'',
                      encode_basestring_ascii ''timestamp'' @ '': '' @ ''2000''];
             signed = encode_utf8 (''{'' @ join '', '' items @ ''}'');
             sig = hexlify (crypto_sign example_env (seed example_key) signed);
             body = encode_utf8
                      (''{'' @ join '', ''
                         (items @ [encode_basestring_ascii ''signature'' @ '': ''
                                     @ encode_basestring_ascii sig]) @ ''}'')
         in snd (send example_env ready_client ''agent-B'' ''text'' (PDict [(''text'', PStr ''Hello!'')]) None) =
              (ready_client,
               [Serialized signed, Signed sig,
                Sent \<lparr>url = [Lit (base_url ready_client), Lit ''/messages''], data = Some body,
                      headers = [(''Content-Type'', ''application/json'')],
                      http_method = ''POST''\<rparr>]))"
proof -
  have ts: "show_int (py_int (float_mul example_env (time_time example_env) 1000)) = ''2000''"
    by (simp add: example_env_def py_int_def show_int_def show_nat.simps hexdigit_def)
  have h1: "truthy (agent_id ready_client)" and h2: "priv_signing_key ready_client = Some example_key"
    and h3: "json_dumps (agent_id ready_client) = Inr (encode_basestring_ascii ''agent-A'')"
    by (simp_all add: ready_client_def)
  have h4: "json_dumps (py_or (PDict [(''text'', PStr ''Hello!'')]) (PDict []))
       = Inr (''{'' @ encode_basestring_ascii ''text'' @ '': '' @ encode_basestring_ascii ''Hello!'' @ ''}'')"
    by (simp add: py_or_def)
  show ?thesis
    using send_signs_content_fields [OF h1 h2 h3 h4, of "''text''" "''agent-B''" None example_env]
      h1 h2 h3 h4
    by (simp add: ts)
qed

section \<open>Deterministic serialization\<close>

text \<open>
  The serializer writes the entries of a mapping in the order the mapping holds them: the
  serialized entries line up, one by one, with the entries of the association list.
\<close>

lemma dumps_items_in_order:
  "dumps_items kvs = Inr ss \<Longrightarrow>
     list_all2 (\<lambda>kv s. \<exists>v. json_dumps (snd kv) = Inr v
                  \<and> s = encode_basestring_ascii (fst kv) @ '': '' @ v) kvs ss"
  by (induction kvs arbitrary: ss) (auto split: sum.splits)

text \<open>
  Claim C2, as the code has it. \<open>send\<close> writes the six content fields in the fixed order
  \<open>type\<close>, \<open>from\<close>, \<open>to\<close>, \<open>payload\<close>, \<open>replyTo\<close>, \<open>timestamp\<close>, the order of its dictionary
  display, and what it serializes is a function of the six entries alone: two runs that pass
  the checks with the same agent id, recipient, type and reply reference, the same timestamp
  and the same payload after \<open>payload or {}\<close> serialize byte-identical output, whatever else
  differs (the key, the base URL, the signing function, the server, the payload before the
  default was applied, the clock reading within the millisecond). The payload counts with
  the insertion order of its keys: the keys of a payload are not sorted.
\<close>

theorem serialization_deterministic:
  assumes "truthy (agent_id self1)" and "key_set self1" and "key_set self2"
    and "agent_id self2 = agent_id self1"
    and "py_or payload2 (PDict []) = py_or payload1 (PDict [])"
    and "py_int (float_mul env2 (time_time env2) 1000)
           = py_int (float_mul env1 (time_time env1) 1000)"
  shows "serialized (snd (snd (send env1 self1 to mtype payload1 reply_to)))
           = serialized (snd (snd (send env2 self2 to mtype payload2 reply_to)))
       \<and> serialized (snd (snd (send env1 self1 to mtype payload1 reply_to)))
           = (case json_dumps (PDict (send_message env1 self1 to mtype payload1 reply_to)) of
                Inl e \<Rightarrow> []
              | Inr s \<Rightarrow> [encode_utf8 s])
       \<and> json_dumps (PDict (send_message env1 self1 to mtype payload1 reply_to))
           = (case json_dumps (agent_id self1) of
                Inl e \<Rightarrow> Inl e
              | Inr f \<Rightarrow>
                  (case json_dumps (py_or payload1 (PDict [])) of
                     Inl e \<Rightarrow> Inl e
                   | Inr p \<Rightarrow>
                       Inr (''{''
                            @ encode_basestring_ascii ''type'' @ '': '' @ encode_basestring_ascii mtype
                            @ '', '' @ encode_basestring_ascii ''from'' @ '': '' @ f
                            @ '', '' @ encode_basestring_ascii ''to'' @ '': '' @ encode_basestring_ascii to
                            @ '', '' @ encode_basestring_ascii ''payload'' @ '': '' @ p
                            @ '', '' @ encode_basestring_ascii ''replyTo'' @ '': ''
                            @ (case reply_to of None \<Rightarrow> ''null''
                               | Some r \<Rightarrow> encode_basestring_ascii r)
                            @ '', '' @ encode_basestring_ascii ''timestamp'' @ '': ''
                            @ show_int (py_int (float_mul env1 (time_time env1) 1000))
                            @ ''}'')))"
proof -
  have same: "send_message env2 self2 to mtype payload2 reply_to
                = send_message env1 self1 to mtype payload1 reply_to"
    using assms(4-6) by (simp add: send_message_def)
  have a: "serialized (snd (snd (send env1 self1 to mtype payload1 reply_to)))
           = (case json_dumps (PDict (send_message env1 self1 to mtype payload1 reply_to)) of
                Inl e \<Rightarrow> []
              | Inr s \<Rightarrow> [encode_utf8 s])"
    using assms(1,2) by (rule send_serialized)
  have b: "serialized (snd (snd (send env2 self2 to mtype payload2 reply_to)))
           = (case json_dumps (PDict (send_message env2 self2 to mtype payload2 reply_to)) of
                Inl e \<Rightarrow> []
              | Inr s \<Rightarrow> [encode_utf8 s])"
    using assms(1,3,4) by (intro send_serialized) simp_all
  note c = send_message_dumps [of env1 self1 to mtype payload1 reply_to]
  from a b [unfolded same] c show ?thesis
    by (simp del: json_dumps.simps)
qed

theorem serialization_deterministic_witness:
  "truthy (agent_id ready_client) \<and> key_set ready_client
   \<and> key_set (ready_client\<lparr>base_url := ''http://other'',
                             priv_signing_key := Some \<lparr>seed = replicate 32 9, verify_key = []\<rparr>\<rparr>)
   \<and> py_or (PDict []) (PDict []) = py_or PNone (PDict [])
   \<and> py_int (float_mul (example_env\<lparr>crypto_sign := (\<lambda>k m. k), time_time := 2 + 1 / 8192\<rparr>)
                (time_time (example_env\<lparr>crypto_sign := (\<lambda>k m. k), time_time := 2 + 1 / 8192\<rparr>)) 1000)
       = py_int (float_mul example_env (time_time example_env) 1000)
   \<and> serialized (snd (snd (send example_env ready_client ''agent-B'' ''ping'' PNone None)))
       = serialized (snd (snd (send (example_env\<lparr>crypto_sign := (\<lambda>k m. k), time_time := 2 + 1 / 8192\<rparr>)
            (ready_client\<lparr>base_url := ''http://other'',
                           priv_signing_key := Some \<lparr>seed = replicate 32 9, verify_key = []\<rparr>\<rparr>)
            ''agent-B'' ''ping'' (PDict []) None)))
   \<and> serialized (snd (snd (send example_env ready_client ''agent-B'' ''ping'' PNone None)))
       = [encode_utf8 (''{''
            @ encode_basestring_ascii ''type'' @ '': '' @ encode_basestring_ascii ''ping''
            @ '', '' @ encode_basestring_ascii ''from'' @ '': '' @ encode_basestring_ascii ''agent-A''
            @ '', '' @ encode_basestring_ascii ''to'' @ '': '' @ encode_basestring_ascii ''agent-B''
            @ '', '' @ encode_basestring_ascii ''payload'' @ '': '' @ ''{}''
            @ '', '' @ encode_basestring_ascii ''replyTo'' @ '': '' @ ''null''
            @ '', '' @ encode_basestring_ascii ''timestamp'' @ '': '' @ ''2000''
            @ ''}'')]"
proof -
  let ?other = "ready_client\<lparr>base_url := ''http://other'',
                  priv_signing_key := Some \<lparr>seed = replicate 32 9, verify_key = []\<rparr>\<rparr>"
  let ?env2 = "example_env\<lparr>crypto_sign := (\<lambda>k m. k), time_time := 2 + 1 / 8192\<rparr>"
  have ts: "show_int (py_int (float_mul example_env (time_time example_env) 1000)) = ''2000''"
    by (simp add: example_env_def py_int_def show_int_def show_nat.simps hexdigit_def)
  have h1: "truthy (agent_id ready_client)" and h2: "key_set ready_client"
    and h3: "key_set ?other" and h4: "agent_id ?other = agent_id ready_client"
    and h5: "py_or (PDict []) (PDict []) = py_or PNone (PDict [])"
    by (simp_all add: ready_client_def key_set_def py_or_def)
  have h6: "py_int (float_mul ?env2 (time_time ?env2) 1000)
              = py_int (float_mul example_env (time_time example_env) 1000)"
    by (simp add: example_env_def py_int_def)
  note inst = serialization_deterministic
                [OF h1 h2 h3 h4 h5 h6, of "''agent-B''" "''ping''" None]
  have two_runs:
    "serialized (snd (snd (send example_env ready_client ''agent-B'' ''ping'' PNone None)))
       = serialized (snd (snd (send ?env2 ?other ''agent-B'' ''ping'' (PDict []) None)))"
    using inst by (rule conjunct1)
  have what: "serialized (snd (snd (send example_env ready_client ''agent-B'' ''ping'' PNone None)))
       = (case json_dumps (PDict (send_message example_env ready_client ''agent-B'' ''ping'' PNone None)) of
            Inl e \<Rightarrow> [] | Inr s \<Rightarrow> [encode_utf8 s])"
    using inst by (rule conjunct2 [THEN conjunct1])
  have layout: "json_dumps (PDict (send_message example_env ready_client ''agent-B'' ''ping'' PNone None))
       = Inr (''{''
            @ encode_basestring_ascii ''type'' @ '': '' @ encode_basestring_ascii ''ping''
            @ '', '' @ encode_basestring_ascii ''from'' @ '': '' @ encode_basestring_ascii ''agent-A''
            @ '', '' @ encode_basestring_ascii ''to'' @ '': '' @ encode_basestring_ascii ''agent-B''
            @ '', '' @ encode_basestring_ascii ''payload'' @ '': '' @ ''{}''
            @ '', '' @ encode_basestring_ascii ''replyTo'' @ '': '' @ ''null''
            @ '', '' @ encode_basestring_ascii ''timestamp'' @ '': '' @ ''2000''
            @ ''}'')"
    unfolding inst [THEN conjunct2, THEN conjunct2]
    by (simp add: ready_client_def py_or_def ts)
  show ?thesis
    using h1 h2 h3 h5 h6 two_runs what [unfolded layout] by simp
qed

text \<open>
  Two payloads that are equal as mappings, built in different orders: the bytes serialized
  for signing differ, in \<open>_sign\<close> taken alone and in \<open>send\<close>.
\<close>

theorem serialization_deterministic_counterexample:
  "map_of [(''a'', PInt 1), (''b'', PInt 2)] = map_of [(''b'', PInt 2), (''a'', PInt 1)]
   \<and> serialized (snd (priv_sign example_env ready_client (PDict [(''a'', PInt 1), (''b'', PInt 2)])))
       \<noteq> serialized (snd (priv_sign example_env ready_client (PDict [(''b'', PInt 2), (''a'', PInt 1)])))
   \<and> serialized (snd (snd (send example_env ready_client ''agent-B'' ''request''
                               (PDict [(''a'', PInt 1), (''b'', PInt 2)]) None)))
       \<noteq> serialized (snd (snd (send example_env ready_client ''agent-B'' ''request''
                               (PDict [(''b'', PInt 2), (''a'', PInt 1)]) None)))"
proof -
  have m: "map_of [(''a'', PInt 1), (''b'', PInt 2)] = map_of [(''b'', PInt 2), (''a'', PInt 1)]"
    by (auto simp: fun_eq_iff)
  have k: "truthy (agent_id ready_client)" "key_set ready_client"
    by (simp_all add: ready_client_def key_set_def)
  have s: "serialized (snd (priv_sign example_env ready_client (PDict [(''a'', PInt 1), (''b'', PInt 2)])))
       \<noteq> serialized (snd (priv_sign example_env ready_client (PDict [(''b'', PInt 2), (''a'', PInt 1)])))"
    by (simp add: priv_sign_serialized encode_basestring_ascii_def escape_char_def
          encode_utf8_def utf8_char_def)
  have t: "serialized (snd (snd (send example_env ready_client ''agent-B'' ''request''
                               (PDict [(''a'', PInt 1), (''b'', PInt 2)]) None)))
       \<noteq> serialized (snd (snd (send example_env ready_client ''agent-B'' ''request''
                               (PDict [(''b'', PInt 2), (''a'', PInt 1)]) None)))"
    unfolding send_serialized [OF k] send_message_dumps
    by (simp add: ready_client_def py_or_def encode_basestring_ascii_def escape_char_def
          encode_utf8_def utf8_char_def)
  from m s t show ?thesis by simp
qed

section \<open>Sending without a signing key\<close>

text \<open>
  Claim C3, as the code has it. \<open>send\<close> checks the agent id before the key. With no signing key
  held, a call of \<open>send\<close> raises \<open>PingError\<close> with status 400 before anything is serialized,
  signed or sent, and leaves the client unchanged; the message is
  \<open>Must generate or set keys first\<close> when the agent id is non-empty, and
  \<open>Must register first (call register())\<close> when the agent id is empty.
\<close>

theorem send_without_key:
  assumes "priv_signing_key self = None"
  shows "send env self to mtype payload reply_to =
           (Inl (PingError (JStr (if truthy (agent_id self)
                                  then ''Must generate or set keys first''
                                  else ''Must register first (call register())'')) 400),
            self, [])"
  using assms by (simp add: send_def priv_require_agent_def priv_require_keys_def)

theorem send_without_key_witness:
  "priv_signing_key (fresh_client\<lparr>agent_id := PStr ''agent-A''\<rparr>) = None
   \<and> send example_env (fresh_client\<lparr>agent_id := PStr ''agent-A''\<rparr>) ''agent-B'' ''ping'' (PDict []) None
       = (Inl (PingError (JStr ''Must generate or set keys first'') 400),
          fresh_client\<lparr>agent_id := PStr ''agent-A''\<rparr>, [])"
  using send_without_key [of "fresh_client\<lparr>agent_id := PStr ''agent-A''\<rparr>" example_env
                             "''agent-B''" "''ping''" "PDict []" None]
  by (simp add: fresh_client_def)

text \<open>
  A client that has neither registered nor loaded a key: the error raised is the one of the
  registration check, not the one of the key check.
\<close>

theorem send_without_key_counterexample:
  "priv_signing_key fresh_client = None
   \<and> fst (send example_env fresh_client ''agent-B'' ''ping'' (PDict []) None)
       = Inl (PingError (JStr ''Must register first (call register())'') 400)
   \<and> fst (send example_env fresh_client ''agent-B'' ''ping'' (PDict []) None)
       \<noteq> Inl (PingError (JStr ''Must generate or set keys first'') 400)"
  by (simp add: send_def priv_require_agent_def fresh_client_def)

section \<open>Payloads that cannot be serialized\<close>

lemma send_falsy_payload_replaced:
  "\<not> truthy payload \<Longrightarrow>
     send_message env self to mtype payload reply_to
       = send_message env self to mtype (PDict []) reply_to"
  by (simp add: send_message_def py_or_def)

text \<open>
  Claim C4, as the code has it. \<open>send\<close> does not catch what the serializer raises and the
  client defines no serialization error. When the precondition checks pass, the agent id is
  serializable and the payload is truthy and cannot be serialized, \<open>send\<close> raises the
  serializer's own exception: a \<open>TypeError\<close> for a value JSON cannot represent, a
  \<open>ValueError\<close> for a circular reference; never a \<open>PingError\<close>. Nothing is signed or sent and
  the client is unchanged. (A falsy payload is replaced by the empty mapping before it is
  serialized, see \<open>send_falsy_payload_replaced\<close>.)
\<close>

theorem send_unserializable_payload:
  assumes "truthy (agent_id self)" and "priv_signing_key self = Some k"
    and "json_dumps (agent_id self) = Inr f"
    and "truthy payload" and "json_dumps payload = Inl e"
  shows "send env self to mtype payload reply_to = (Inl e, self, [])
       \<and> ((\<exists>m. e = TypeError m) \<or> (\<exists>m. e = ValueError m))
       \<and> \<not> raised_PingError (fst (send env self to mtype payload reply_to))"
proof -
  have "json_dumps (PDict (send_message env self to mtype payload reply_to)) = Inl e"
    using assms(3-5) by (simp add: send_message_def py_or_def)
  with assms(1,2) have s: "send env self to mtype payload reply_to = (Inl e, self, [])"
    by (simp add: send_def priv_require_agent_def priv_require_keys_def priv_sign_def)
  have k: "(\<exists>m. e = TypeError m) \<or> (\<exists>m. e = ValueError m)"
    using json_dumps_error_kind(1) [OF assms(5)] .
  from s k show ?thesis by auto
qed

theorem send_unserializable_payload_witness:
  "truthy (agent_id ready_client) \<and> priv_signing_key ready_client = Some example_key
   \<and> json_dumps (agent_id ready_client) = Inr (encode_basestring_ascii ''agent-A'')
   \<and> truthy (PDict [(''self'', PCycle)])
   \<and> json_dumps (PDict [(''self'', PCycle)]) = Inl (ValueError ''Circular reference detected'')
   \<and> send example_env ready_client ''agent-B'' ''proposal'' (PDict [(''self'', PCycle)]) None
        = (Inl (ValueError ''Circular reference detected''), ready_client, [])
   \<and> \<not> raised_PingError
          (fst (send example_env ready_client ''agent-B'' ''proposal'' (PDict [(''self'', PCycle)]) None))"
  using send_unserializable_payload
          [of ready_client example_key "encode_basestring_ascii ''agent-A''"
              "PDict [(''self'', PCycle)]" "ValueError ''Circular reference detected''"
              example_env "''agent-B''" "''proposal''" None]
  by (simp add: ready_client_def)

text \<open>
  A payload that holds a set: the exception that reaches the caller is the serializer's
  \<open>TypeError\<close>, which is not a \<open>PingError\<close>.
\<close>

theorem send_unserializable_payload_counterexample:
  "json_dumps (PDict [(''tags'', PObject ''set'' True)])
     = Inl (TypeError ''Object of type set is not JSON serializable'')
   \<and> fst (send example_env ready_client ''agent-B'' ''proposal''
             (PDict [(''tags'', PObject ''set'' True)]) None)
     = Inl (TypeError ''Object of type set is not JSON serializable'')
   \<and> \<not> raised_PingError
          (fst (send example_env ready_client ''agent-B'' ''proposal''
             (PDict [(''tags'', PObject ''set'' True)]) None))"
  by (simp add: send_def priv_require_agent_def priv_require_keys_def priv_sign_def
        send_message_def py_or_def ready_client_def)

section \<open>Loading a malformed private key\<close>

lemma unhex_pairs_Some:
  "unhex_pairs s = Some bs \<Longrightarrow> length s = 2 * length bs \<and> list_all is_hex s"
  by (induction s arbitrary: bs rule: unhex_pairs.induct)
     (auto simp: is_hex_def split: option.splits)

lemma SigningKey_hex_invalid:
  assumes "\<not> valid_private_key_hex pk"
  shows "\<exists>m. SigningKey_hex env pk = Inl (ValueError m)"
proof (cases "unhexlify pk")
  case (Inl e)
  then show ?thesis
    by (auto simp: SigningKey_hex_def try_bind_def unhexlify_def split: if_splits option.splits)
next
  case (Inr bs)
  then have "unhex_pairs pk = Some bs"
    by (auto simp: unhexlify_def split: if_splits option.splits)
  then have "length pk = 2 * length bs" and "list_all is_hex pk"
    using unhex_pairs_Some by blast+
  with assms have "length bs \<noteq> 32"
    by (auto simp: valid_private_key_hex_def)
  with Inr show ?thesis
    by (simp add: SigningKey_hex_def try_bind_def SigningKey_raw_def)
qed

text \<open>
  Claim C5, as the code has it. \<open>set_keys\<close> validates nothing itself and wraps nothing: with
  the Ed25519 library present, an argument that is not 64 hexadecimal digits makes the
  library's constructor raise a \<open>ValueError\<close> (from the hex decoder, or from the check of the
  seed length), which \<open>set_keys\<close> lets through unchanged. The client keeps the key it had.
\<close>

theorem set_keys_invalid_key:
  assumes "NACL_AVAILABLE env" and "\<not> valid_private_key_hex private_key"
  shows "\<exists>m. set_keys env self private_key = (Inl (ValueError m), self, [])"
proof -
  obtain m where "SigningKey_hex env private_key = Inl (ValueError m)"
    using SigningKey_hex_invalid [OF assms(2)] by blast
  with assms(1) show ?thesis
    by (simp add: set_keys_def)
qed

theorem set_keys_invalid_key_witness:
  "NACL_AVAILABLE example_env \<and> \<not> valid_private_key_hex ''zz''
   \<and> (\<exists>m. set_keys example_env fresh_client ''zz'' = (Inl (ValueError m), fresh_client, []))"
  using set_keys_invalid_key [of example_env "''zz''" fresh_client]
  by (simp add: example_env_def valid_private_key_hex_def)

text \<open>
  The error raised for the argument \<open>zz\<close> is the hex decoder's \<open>ValueError\<close>; it is not a
  \<open>PingError\<close>, the only exception class the client defines.
\<close>

theorem set_keys_invalid_key_counterexample:
  "\<not> valid_private_key_hex ''zz''
   \<and> fst (set_keys example_env fresh_client ''zz'') = Inl (ValueError ''Non-hexadecimal digit found'')
   \<and> \<not> raised_PingError (fst (set_keys example_env fresh_client ''zz''))"
  by (simp add: set_keys_def example_env_def SigningKey_hex_def try_bind_def unhexlify_def
        hexval_def valid_private_key_hex_def)

section \<open>The timestamp of an envelope\<close>

lemma py_int_near: "\<bar>real_of_int (py_int x) - x\<bar> < 1"
  by (simp add: py_int_def) linarith

text \<open>
  Claim C6, as the code has it. \<open>send\<close> has no timestamp parameter. In every envelope that
  \<open>send\<close> builds and signs, the timestamp is the integer that \<open>send\<close> itself computes from its
  reading of the clock, \<open>int(time.time() * 1000)\<close>: the floating-point product of the reading
  in seconds and 1000, cut to an integer, hence a whole number of milliseconds less than one
  away from that product. These are the digits that stand in the bytes \<open>send\<close> signs. No
  argument of \<open>send\<close> and no field of the client enters the timestamp.
\<close>

theorem send_timestamp_from_clock:
  assumes "truthy (agent_id self)" and "key_set self"
    and "json_dumps (agent_id self) = Inr f"
    and "json_dumps (py_or payload (PDict [])) = Inr p"
  shows "serialized (snd (snd (send env self to mtype payload reply_to))) =
           [encode_utf8
              (''{''
               @ encode_basestring_ascii ''type'' @ '': '' @ encode_basestring_ascii mtype
               @ '', '' @ encode_basestring_ascii ''from'' @ '': '' @ f
               @ '', '' @ encode_basestring_ascii ''to'' @ '': '' @ encode_basestring_ascii to
               @ '', '' @ encode_basestring_ascii ''payload'' @ '': '' @ p
               @ '', '' @ encode_basestring_ascii ''replyTo'' @ '': ''
               @ (case reply_to of None \<Rightarrow> ''null'' | Some r \<Rightarrow> encode_basestring_ascii r)
               @ '', '' @ encode_basestring_ascii ''timestamp'' @ '': ''
               @ show_int (py_int (float_mul env (time_time env) 1000))
               @ ''}'')]
       \<and> map_of (send_message env self to mtype payload reply_to) ''timestamp''
           = Some (PInt (py_int (float_mul env (time_time env) 1000)))
       \<and> map_of (send_message env self' to' mtype' payload' reply_to') ''timestamp''
           = map_of (send_message env self to mtype payload reply_to) ''timestamp''
       \<and> \<bar>real_of_int (py_int (float_mul env (time_time env) 1000))
            - float_mul env (time_time env) 1000\<bar> < 1"
proof -
  have a: "serialized (snd (snd (send env self to mtype payload reply_to)))
           = (case json_dumps (PDict (send_message env self to mtype payload reply_to)) of
                Inl e \<Rightarrow> []
              | Inr s \<Rightarrow> [encode_utf8 s])"
    using assms(1,2) by (rule send_serialized)
  have b: "map_of (send_message env self to mtype payload reply_to) ''timestamp''
           = Some (PInt (py_int (float_mul env (time_time env) 1000)))"
    and c: "map_of (send_message env self' to' mtype' payload' reply_to') ''timestamp''
           = map_of (send_message env self to mtype payload reply_to) ''timestamp''"
    by (simp_all add: send_message_def)
  from a b c assms(3,4) show ?thesis
    by (simp add: send_message_dumps py_int_near del: json_dumps.simps)
qed

theorem send_timestamp_from_clock_witness:
  "truthy (agent_id ready_client) \<and> key_set ready_client
   \<and> json_dumps (agent_id ready_client) = Inr (encode_basestring_ascii ''agent-A'')
   \<and> json_dumps (py_or PNone (PDict [])) = Inr ''{}''
   \<and> serialized (snd (snd (send example_env ready_client ''agent-B'' ''ping'' PNone None))) =
           [encode_utf8
              (''{''
               @ encode_basestring_ascii ''type'' @ '': '' @ encode_basestring_ascii ''ping''
               @ '', '' @ encode_basestring_ascii ''from'' @ '': '' @ encode_basestring_ascii ''agent-A''
               @ '', '' @ encode_basestring_ascii ''to'' @ '': '' @ encode_basestring_ascii ''agent-B''
               @ '', '' @ encode_basestring_ascii ''payload'' @ '': '' @ ''{}''
               @ '', '' @ encode_basestring_ascii ''replyTo'' @ '': '' @ ''null''
               @ '', '' @ encode_basestring_ascii ''timestamp'' @ '': '' @ ''2000''
               @ ''}'')]
   \<and> map_of (send_message example_env ready_client ''agent-B'' ''ping'' PNone None) ''timestamp''
       = Some (PInt 2000)"
proof -
  have ti: "py_int (float_mul example_env (time_time example_env) 1000) = 2000"
    by (simp add: example_env_def py_int_def)
  have ts: "show_int (2000 :: int) = ''2000''"
    by (simp add: show_int_def show_nat.simps hexdigit_def)
  have h1: "truthy (agent_id ready_client)" and h2: "key_set ready_client"
    and h3: "json_dumps (agent_id ready_client) = Inr (encode_basestring_ascii ''agent-A'')"
    and h4: "json_dumps (py_or PNone (PDict [])) = Inr ''{}''"
    by (simp_all add: ready_client_def key_set_def py_or_def)
  note inst = send_timestamp_from_clock
                [OF h1 h2 h3 h4, of example_env "''agent-B''" "''ping''" None, unfolded ti ts]
  from inst have a:
    "serialized (snd (snd (send example_env ready_client ''agent-B'' ''ping'' PNone None))) =
           [encode_utf8
              (''{''
               @ encode_basestring_ascii ''type'' @ '': '' @ encode_basestring_ascii ''ping''
               @ '', '' @ encode_basestring_ascii ''from'' @ '': '' @ encode_basestring_ascii ''agent-A''
               @ '', '' @ encode_basestring_ascii ''to'' @ '': '' @ encode_basestring_ascii ''agent-B''
               @ '', '' @ encode_basestring_ascii ''payload'' @ '': '' @ ''{}''
               @ '', '' @ encode_basestring_ascii ''replyTo'' @ '': '' @ ''null''
               @ '', '' @ encode_basestring_ascii ''timestamp'' @ '': '' @ ''2000''
               @ ''}'')]"
    by simp
  from inst have b:
    "map_of (send_message example_env ready_client ''agent-B'' ''ping'' PNone None) ''timestamp''
       = Some (PInt 2000)"
    by simp
  from h1 h2 h3 h4 a b show ?thesis by simp
qed

text \<open>
  Two calls of \<open>send\<close> on the same client with the same arguments, one second apart: the
  timestamps are 1000 and 2000 and the signed bytes differ, so the timestamp is not a value
  the caller supplied.
\<close>

theorem send_timestamp_counterexample:
  "map_of (send_message (example_env\<lparr>time_time := 1\<rparr>) ready_client ''agent-B'' ''ping'' PNone None)
     ''timestamp'' = Some (PInt 1000)
   \<and> map_of (send_message (example_env\<lparr>time_time := 2\<rparr>) ready_client ''agent-B'' ''ping'' PNone None)
     ''timestamp'' = Some (PInt 2000)
   \<and> serialized (snd (snd (send (example_env\<lparr>time_time := 1\<rparr>) ready_client
                               ''agent-B'' ''ping'' PNone None)))
       \<noteq> serialized (snd (snd (send (example_env\<lparr>time_time := 2\<rparr>) ready_client
                               ''agent-B'' ''ping'' PNone None)))"
proof -
  have k: "truthy (agent_id ready_client)" "key_set ready_client"
    by (simp_all add: ready_client_def key_set_def)
  have a: "map_of (send_message (example_env\<lparr>time_time := 1\<rparr>) ready_client ''agent-B'' ''ping'' PNone None)
     ''timestamp'' = Some (PInt 1000)"
    and b: "map_of (send_message (example_env\<lparr>time_time := 2\<rparr>) ready_client ''agent-B'' ''ping'' PNone None)
     ''timestamp'' = Some (PInt 2000)"
    by (simp_all add: send_message_def py_int_def example_env_def)
  have t1: "show_int (py_int (float_mul (example_env\<lparr>time_time := 1\<rparr>)
                                (time_time (example_env\<lparr>time_time := 1\<rparr>)) 1000)) = ''1000''"
    and t2: "show_int (py_int (float_mul (example_env\<lparr>time_time := 2\<rparr>)
                                (time_time (example_env\<lparr>time_time := 2\<rparr>)) 1000)) = ''2000''"
    by (simp_all add: example_env_def py_int_def show_int_def show_nat.simps hexdigit_def)
  have c: "serialized (snd (snd (send (example_env\<lparr>time_time := 1\<rparr>) ready_client
                               ''agent-B'' ''ping'' PNone None)))
       \<noteq> serialized (snd (snd (send (example_env\<lparr>time_time := 2\<rparr>) ready_client
                               ''agent-B'' ''ping'' PNone None)))"
    unfolding send_serialized [OF k] send_message_dumps t1 t2
    by (simp add: ready_client_def py_or_def encode_basestring_ascii_def escape_char_def
          encode_utf8_def utf8_char_def)
  from a b c show ?thesis by simp
qed

section \<open>Round trip of a generated key\<close>

text \<open>
  Claim C7. With the Ed25519 library present and a random source that returns the 32 bytes
  asked of it, \<open>generate_keys\<close> succeeds and returns the hexadecimal private and public key;
  decoding the returned private key gives back the generated seed, and loading it with
  \<open>set_keys\<close>, into any client, succeeds and stores the same signing key and the same public
  key that \<open>generate_keys\<close> returned.
\<close>

theorem generated_key_round_trip:
  assumes "NACL_AVAILABLE env" and "length (nacl_random env 32) = 32"
  shows "\<exists>self1 sk pk.
           generate_keys env self = (Inr [(''private_key'', sk), (''public_key'', pk)], self1, [])
         \<and> unhexlify sk = Inr (nacl_random env 32)
         \<and> set_keys env other sk =
               (Inr (), other\<lparr>priv_signing_key := priv_signing_key self1, priv_public_key := pk\<rparr>, [])
         \<and> public_key (fst (snd (set_keys env other sk))) = pk"
  using assms
  by (simp add: generate_keys_def set_keys_def SigningKey_generate_def SigningKey_hex_def
        SigningKey_raw_def try_bind_def unhexlify_hexlify public_key_def Let_def)

theorem generated_key_round_trip_witness:
  "NACL_AVAILABLE example_env \<and> length (nacl_random example_env 32) = 32
   \<and> (\<exists>self1 sk pk.
           generate_keys example_env fresh_client
             = (Inr [(''private_key'', sk), (''public_key'', pk)], self1, [])
         \<and> unhexlify sk = Inr (nacl_random example_env 32)
         \<and> set_keys example_env ready_client sk =
               (Inr (), ready_client\<lparr>priv_signing_key := priv_signing_key self1,
                                      priv_public_key := pk\<rparr>, [])
         \<and> public_key (fst (snd (set_keys example_env ready_client sk))) = pk)"
  using generated_key_round_trip [of example_env fresh_client ready_client]
  by (simp add: example_env_def)

section \<open>The held signing key\<close>












section \<open>Missing cryptographic library\<close>

text \<open>
  Claim C9. When the Ed25519 library could not be imported (\<open>NACL_AVAILABLE\<close> is false), every
  call of \<open>generate_keys\<close> and every call of \<open>set_keys\<close>, whatever its argument, raises the
  \<open>PingError\<close> that names the missing dependency, with status 500, and leaves the client as
  it was. The same error comes out of the constructor when it is given a private key, and out of
  \<open>register\<close> when the client has no public key yet, before any request is sent.
\<close>

theorem nacl_absent_configuration_error:
  assumes "\<not> NACL_AVAILABLE env"
  shows "generate_keys env self =
           (Inl (PingError (JStr ''PyNaCl not installed. Run: pip install pynacl'') 500), self, [])
       \<and> set_keys env self private_key =
           (Inl (PingError (JStr ''PyNaCl not installed. Run: pip install pynacl'') 500), self, [])
       \<and> (private_key \<noteq> [] \<longrightarrow>
            init env base (Some private_key) agent =
              Inl (PingError (JStr ''PyNaCl not installed. Run: pip install pynacl'') 500))
       \<and> (priv_public_key self = [] \<longrightarrow>
            register env self name provider capabilities webhook_url is_public =
              (Inl (PingError (JStr ''PyNaCl not installed. Run: pip install pynacl'') 500), self, []))"
  using assms by (simp add: generate_keys_def set_keys_def init_def register_def)

theorem nacl_absent_configuration_error_witness:
  "generate_keys (example_env\<lparr>NACL_AVAILABLE := False\<rparr>) fresh_client =
           (Inl (PingError (JStr ''PyNaCl not installed. Run: pip install pynacl'') 500), fresh_client, [])
   \<and> set_keys (example_env\<lparr>NACL_AVAILABLE := False\<rparr>) fresh_client (hexlify (replicate 32 1)) =
           (Inl (PingError (JStr ''PyNaCl not installed. Run: pip install pynacl'') 500), fresh_client, [])
   \<and> init (example_env\<lparr>NACL_AVAILABLE := False\<rparr>) ''http://localhost:3100''
          (Some (hexlify (replicate 32 1))) None =
           Inl (PingError (JStr ''PyNaCl not installed. Run: pip install pynacl'') 500)
   \<and> register (example_env\<lparr>NACL_AVAILABLE := False\<rparr>) fresh_client ''bot'' ''python'' None None False =
           (Inl (PingError (JStr ''PyNaCl not installed. Run: pip install pynacl'') 500), fresh_client, [])"
proof -
  have h: "\<not> NACL_AVAILABLE (example_env\<lparr>NACL_AVAILABLE := False\<rparr>)"
    by simp
  have k: "hexlify (replicate 32 (1 :: 8 word)) \<noteq> []"
    by (simp add: hexlify_def)
  have p: "priv_public_key fresh_client = []"
    by (simp add: fresh_client_def)
  from nacl_absent_configuration_error
         [OF h, of fresh_client "hexlify (replicate 32 1)" "''http://localhost:3100''" None
            "''bot''" "''python''" None None False]
       k p
  show ?thesis by simp
qed

section \<open>Sends that fail their precondition checks\<close>

text \<open>
  Claim C10. A call of \<open>send\<close> that fails a precondition check (the agent id is empty, or no
  signing key is held) raises a \<open>PingError\<close> with status 400 and returns the client exactly as
  it was: \<open>base_url\<close>, \<open>agent_id\<close>, the signing key and the public key are unchanged. Nothing
  is serialized, no signature is produced and no request is sent (the list of events is empty).
\<close>

theorem failed_send_is_atomic:
  assumes "\<not> truthy (agent_id self) \<or> priv_signing_key self = None"
  shows "send env self to mtype payload reply_to =
           (Inl (PingError (JStr (if \<not> truthy (agent_id self)
                                  then ''Must register first (call register())''
                                  else ''Must generate or set keys first'')) 400),
            self, [])"
  using assms by (auto simp: send_def priv_require_agent_def priv_require_keys_def)

theorem failed_send_is_atomic_witness:
  "priv_signing_key fresh_client = None
   \<and> send example_env fresh_client ''agent-B'' ''ping'' (PDict []) None
       = (Inl (PingError (JStr ''Must register first (call register())'') 400), fresh_client, [])"
  using failed_send_is_atomic [of fresh_client example_env "''agent-B''" "''ping''" "PDict []" None]
  by (simp add: fresh_client_def)

end
